theory Spec2Isabelle
  imports Main "HOL-Library.Word"
begin

section \<open>Strings of the source language\<close>

text \<open>
  A string of the source is a sequence of 16-bit code units. Literals of the source are
  written \<open>lit ''...''\<close>; a character that cannot stand in such a literal is given by
  its code.
\<close>

type_synonym jschar = "16 word"
type_synonym jsstring = "jschar list"

definition lit :: "string \<Rightarrow> jsstring" where
  "lit s = map (\<lambda>c. of_nat (of_char c)) s"

text \<open>
  The code units that \<open>String.prototype.trim\<close> strips: the white space characters and the
  line terminators of the language.
\<close>

definition is_ws :: "jschar \<Rightarrow> bool" where
  "is_ws c \<longleftrightarrow>
     c = 0x9 \<or> c = 0xA \<or> c = 0xB \<or> c = 0xC \<or> c = 0xD \<or> c = 0x20 \<or> c = 0xA0 \<or>
     c = 0x1680 \<or> (0x2000 \<le> c \<and> c \<le> 0x200A) \<or> c = 0x2028 \<or> c = 0x2029 \<or>
     c = 0x202F \<or> c = 0x205F \<or> c = 0x3000 \<or> c = 0xFEFF"

definition trim :: "jsstring \<Rightarrow> jsstring" where
  "trim s = dropWhile is_ws (rev (dropWhile is_ws (rev s)))"

text \<open>
  \<open>s.split(d)\<close> for a separator of one code unit: the pieces between the occurrences of
  \<open>d\<close>, in order, empty pieces included; a string without \<open>d\<close> is one piece.
\<close>

fun split :: "jschar \<Rightarrow> jsstring \<Rightarrow> jsstring list" where
  "split d [] = [[]]"
| "split d (c # cs) =
     (if c = d then [] # split d cs
      else (c # hd (split d cs)) # tl (split d cs))"

text \<open>The decimal digits of a number, as a template literal prints an array length.\<close>

fun decimal :: "nat \<Rightarrow> jsstring" where
  "decimal n =
     (if n < 10 then [of_nat (48 + n)]
      else decimal (n div 10) @ [of_nat (48 + n mod 10)])"

text \<open>An array pattern \<open>[a, b] = xs\<close> binds a missing place to \<open>undefined\<close>.\<close>

definition at :: "'a list \<Rightarrow> nat \<Rightarrow> 'a option" where
  "at xs i = (if i < length xs then Some (xs ! i) else None)"


section \<open>Data model\<close>

text \<open>The interfaces of \<open>types.ts\<close>; of a \<open>File\<close> the code reads the MIME type only.\<close>

record File =
  file_type :: jsstring

record UploadedImage =
  "file" :: File
  base64 :: jsstring

record CharacterReference =
  char_base64 :: jsstring
  char_mimeType :: jsstring
  char_file :: "File option"

record StoryboardPanel =
  panel_id :: jsstring
  panel_src :: jsstring
  panel_prompt :: jsstring

subsection \<open>The generation service\<close>

text \<open>
  The request and response shapes of \<open>ai.models.generateContent\<close>, as far as the code
  builds and reads them. Every optional chain of the code (\<open>?.\<close>) is an \<open>option\<close> here.
\<close>

record Blob =
  data :: jsstring
  mimeType :: jsstring

record Part =
  inlineData :: "Blob option"
  "text" :: "jsstring option"

record Content =
  parts :: "Part list option"

record Candidate =
  content :: "Content option"

record GenerateContentResponse =
  candidates :: "Candidate list option"

datatype Modality = TEXT | IMAGE | AUDIO

record GenerateContentParameters =
  model :: jsstring
  contents :: Content
  responseModalities :: "Modality list"

text \<open>
  An awaited call either resolves with a response or rejects with a thrown value, which
  is an \<open>Error\<close> carrying a message or anything else.
\<close>

datatype thrown = Error jsstring | NonError

datatype outcome = Resolves GenerateContentResponse | Rejects thrown

text \<open>
  What the code does not decide: the answer of the service to the \<open>n\<close>-th call of a run
  (counted from 0), and the identifier \<open>`${new Date().toISOString()}-${Math.random()}`\<close>
  drawn for the \<open>n\<close>-th finished panel. Constructing the client
  (\<open>new GoogleGenAI(...)\<close>) is taken to succeed.
\<close>

record Env =
  generateContent :: "nat \<Rightarrow> GenerateContentParameters \<Rightarrow> outcome"
  freshId :: "nat \<Rightarrow> jsstring"

definition imageRequest :: "Part list \<Rightarrow> GenerateContentParameters" where
  "imageRequest ps =
     \<lparr>model = lit ''gemini-2.5-flash-image'',
      contents = \<lparr>parts = Some ps\<rparr>,
      responseModalities = [IMAGE]\<rparr>"

definition inlinePart :: "jsstring \<Rightarrow> jsstring \<Rightarrow> Part" where
  "inlinePart d m = \<lparr>inlineData = Some \<lparr>data = d, mimeType = m\<rparr>, text = None\<rparr>"

definition textPart :: "jsstring \<Rightarrow> Part" where
  "textPart t = \<lparr>inlineData = None, text = Some t\<rparr>"

text \<open>
  \<open>response.candidates?.[0]?.content?.parts?.find(part => part.inlineData)\<close> followed by
  \<open>imagePart?.inlineData\<close>.
\<close>

definition imagePart :: "GenerateContentResponse \<Rightarrow> Part option" where
  "imagePart response =
     (case candidates response of
        None \<Rightarrow> None
      | Some cs \<Rightarrow>
          (case at cs 0 of
             None \<Rightarrow> None
           | Some c \<Rightarrow>
               (case content c of
                  None \<Rightarrow> None
                | Some ct \<Rightarrow>
                    (case parts ct of
                       None \<Rightarrow> None
                     | Some ps \<Rightarrow> find (\<lambda>part. inlineData part \<noteq> None) ps))))"

definition imagePartInlineData :: "GenerateContentResponse \<Rightarrow> Blob option" where
  "imagePartInlineData response =
     (case imagePart response of None \<Rightarrow> None | Some part \<Rightarrow> inlineData part)"

definition dataUrl :: "Blob \<Rightarrow> jsstring" where
  "dataUrl b = lit ''data:'' @ mimeType b @ lit '';base64,'' @ data b"

text \<open>\<open>e instanceof Error ? e.message : fallback\<close>\<close>

definition errorMessage :: "thrown \<Rightarrow> jsstring \<Rightarrow> jsstring" where
  "errorMessage e fallback = (case e of Error m \<Rightarrow> m | NonError \<Rightarrow> fallback)"


section \<open>The single-image workflow (\<open>ImageStudio\<close>)\<close>

record ImageStudio_state =
  prompt :: jsstring
  inputImage :: "UploadedImage option"
  outputImage :: "jsstring option"
  studio_isLoading :: bool
  studio_error :: "jsstring option"

text \<open>The initial values of the component's \<open>useState\<close> hooks.\<close>

definition ImageStudio_initial :: ImageStudio_state where
  "ImageStudio_initial =
     \<lparr>prompt = [], inputImage = None, outputImage = None,
      studio_isLoading = False, studio_error = None\<rparr>"

definition ImageStudio_handleImageUpload ::
    "UploadedImage \<Rightarrow> ImageStudio_state \<Rightarrow> ImageStudio_state" where
  "ImageStudio_handleImageUpload img s =
     s\<lparr>inputImage := Some img, outputImage := None, studio_error := None\<rparr>"

definition ImageStudio_handleClearImage :: "ImageStudio_state \<Rightarrow> ImageStudio_state" where
  "ImageStudio_handleClearImage s = s\<lparr>inputImage := None\<rparr>"

text \<open>
  A handler that calls the service returns the state it leaves and the requests it
  issued, in order. The body of its \<open>try\<close> returns the thrown value, if any, for the
  \<open>catch\<close>; the \<open>finally\<close> runs in either case.
\<close>

definition ImageStudio_tryBody ::
    "Env \<Rightarrow> ImageStudio_state \<Rightarrow> thrown option \<times> ImageStudio_state \<times> GenerateContentParameters list" where
  "ImageStudio_tryBody env s =
     (let ps = (case inputImage s of
                  Some img \<Rightarrow> [inlinePart (base64 img) (file_type (file img))]
                | None \<Rightarrow> []) @ [textPart (prompt s)];
          request = imageRequest ps
      in case generateContent env 0 request of
           Rejects e \<Rightarrow> (Some e, s, [request])
         | Resolves response \<Rightarrow>
             (case imagePartInlineData response of
                Some blob \<Rightarrow> (None, s\<lparr>outputImage := Some (dataUrl blob)\<rparr>, [request])
              | None \<Rightarrow>
                  (Some (Error (lit ''Image generation failed. The model did not return an image.'')),
                   s, [request])))"

definition ImageStudio_handleGenerate ::
    "Env \<Rightarrow> ImageStudio_state \<Rightarrow> ImageStudio_state \<times> GenerateContentParameters list" where
  "ImageStudio_handleGenerate env s =
     (if trim (prompt s) = [] then
        (s\<lparr>studio_error := Some (lit ''Please enter a prompt.'')\<rparr>, [])
      else
        (let s1 = s\<lparr>studio_isLoading := True, studio_error := None, outputImage := None\<rparr>
         in case ImageStudio_tryBody env s1 of
              (thrown, s2, requests) \<Rightarrow>
                (let s3 = (case thrown of
                             Some e \<Rightarrow>
                               s2\<lparr>studio_error :=
                                    Some (errorMessage e (lit ''An unknown error occurred.''))\<rparr>
                           | None \<Rightarrow> s2)
                 in (s3\<lparr>studio_isLoading := False\<rparr>, requests))))"

section \<open>The storyboard workflow (\<open>StoryboardGenerator\<close>)\<close>

datatype CreationMode = upload | describe

record Storyboard_state =
  character :: "CharacterReference option"
  characterCreationMode :: CreationMode
  characterDescription :: jsstring
  isCreatingCharacter :: bool
  script :: jsstring
  storyboard :: "StoryboardPanel list"
  isLoading :: bool
  error :: "jsstring option"

definition Storyboard_initial :: Storyboard_state where
  "Storyboard_initial =
     \<lparr>character = None, characterCreationMode = upload, characterDescription = [],
      isCreatingCharacter = False, script = [], storyboard = [], isLoading = False,
      error = None\<rparr>"

definition Storyboard_handleImageUpload ::
    "UploadedImage \<Rightarrow> Storyboard_state \<Rightarrow> Storyboard_state" where
  "Storyboard_handleImageUpload img s =
     s\<lparr>character := Some \<lparr>char_base64 = base64 img,
                           char_mimeType = file_type (file img),
                           char_file = Some (file img)\<rparr>,
       storyboard := [],
       error := None\<rparr>"

definition handleClearCharacter :: "Storyboard_state \<Rightarrow> Storyboard_state" where
  "handleClearCharacter s =
     s\<lparr>character := None, storyboard := [], characterDescription := []\<rparr>"

definition characterPrompt :: "jsstring \<Rightarrow> jsstring" where
  "characterPrompt description =
     lit ''Create a character reference sheet for an anime character. The character is: ''
     @ description
     @ lit ''. The background should be a neutral gray. The character should be in a full-body standing pose, facing forward. High quality, clean line art, vibrant colors.''"

definition handleCreateCharacter_tryBody ::
    "Env \<Rightarrow> Storyboard_state \<Rightarrow> thrown option \<times> Storyboard_state \<times> GenerateContentParameters list" where
  "handleCreateCharacter_tryBody env s =
     (let request = imageRequest [textPart (characterPrompt (characterDescription s))]
      in case generateContent env 0 request of
           Rejects e \<Rightarrow> (Some e, s, [request])
         | Resolves response \<Rightarrow>
             (case imagePartInlineData response of
                Some blob \<Rightarrow>
                  (None,
                   s\<lparr>character := Some \<lparr>char_base64 = data blob,
                                         char_mimeType = mimeType blob,
                                         char_file = None\<rparr>,
                     storyboard := []\<rparr>,
                   [request])
              | None \<Rightarrow>
                  (Some (Error (lit ''The AI failed to generate a character. Please try again.'')),
                   s, [request])))"

definition handleCreateCharacter ::
    "Env \<Rightarrow> Storyboard_state \<Rightarrow> Storyboard_state \<times> GenerateContentParameters list" where
  "handleCreateCharacter env s =
     (if trim (characterDescription s) = [] then
        (s\<lparr>error := Some (lit ''Please describe the character you want to create.'')\<rparr>, [])
      else
        (let s1 = s\<lparr>isCreatingCharacter := True, error := None\<rparr>
         in case handleCreateCharacter_tryBody env s1 of
              (thrown, s2, requests) \<Rightarrow>
                (let s3 = (case thrown of
                             Some e \<Rightarrow>
                               s2\<lparr>error :=
                                    Some (errorMessage e
                                      (lit ''An unknown error occurred while creating the character.''))\<rparr>
                           | None \<Rightarrow> s2)
                 in (s3\<lparr>isCreatingCharacter := False\<rparr>, requests))))"


subsection \<open>The panel pipeline\<close>

text \<open>
  \<open>const [sceneDescription, textContent] = line.split('|').map(s => s.trim())\<close>: the line
  is cut at every \<open>|\<close> (code unit \<open>0x7C\<close>), every piece is trimmed, and the first two
  pieces are bound.
\<close>

definition lineFields :: "jsstring \<Rightarrow> jsstring list" where
  "lineFields line = map trim (split 0x7C line)"

definition sceneDescription :: "jsstring \<Rightarrow> jsstring option" where
  "sceneDescription line = at (lineFields line) 0"

definition textContent :: "jsstring \<Rightarrow> jsstring option" where
  "textContent line = at (lineFields line) 1"

text \<open>\<open>if (textContent)\<close>: neither \<open>undefined\<close> nor the empty string.\<close>

definition truthy :: "jsstring option \<Rightarrow> bool" where
  "truthy v = (case v of None \<Rightarrow> False | Some t \<Rightarrow> t \<noteq> [])"

text \<open>A template literal prints \<open>undefined\<close> for a missing value.\<close>

definition interpolate :: "jsstring option \<Rightarrow> jsstring" where
  "interpolate v = (case v of None \<Rightarrow> lit ''undefined'' | Some t \<Rightarrow> t)"

definition captionInstruction :: "jsstring \<Rightarrow> jsstring" where
  "captionInstruction t =
     [0xA, 0xA]
     @ lit ''IMPORTANT: Render the following text clearly inside the panel, using a stylish comic book font inside a speech bubble or caption box appropriate for the scene: ''
     @ [0x22] @ t @ [0x22]"

definition fullPrompt :: "jsstring \<Rightarrow> jsstring" where
  "fullPrompt line =
     lit ''Create a dynamic anime panel in a modern style, ensuring the character''
     @ [0x27]
     @ lit ''s appearance is consistent with the provided reference image. The scene is: ''
     @ [0x27] @ interpolate (sceneDescription line) @ [0x27]
     @ lit ''. Use interesting camera angles and cinematic composition.''
     @ (if truthy (textContent line) then captionInstruction (interpolate (textContent line))
        else [])"

definition panelRequest :: "CharacterReference \<Rightarrow> jsstring \<Rightarrow> GenerateContentParameters" where
  "panelRequest ch line =
     imageRequest [inlinePart (char_base64 ch) (char_mimeType ch), textPart (fullPrompt line)]"

definition pendingPanel :: "nat \<Rightarrow> StoryboardPanel" where
  "pendingPanel n =
     \<lparr>panel_id = lit ''loading-'' @ decimal n, panel_src = [], panel_prompt = lit ''loading''\<rparr>"

definition finishedPanel ::
    "Env \<Rightarrow> nat \<Rightarrow> jsstring \<Rightarrow> GenerateContentResponse \<Rightarrow> StoryboardPanel" where
  "finishedPanel env n line response =
     (case imagePartInlineData response of
        Some blob \<Rightarrow>
          \<lparr>panel_id = freshId env n, panel_src = dataUrl blob, panel_prompt = line\<rparr>
      | None \<Rightarrow>
          \<lparr>panel_id = freshId env n, panel_src = lit ''error'', panel_prompt = line\<rparr>)"

text \<open>
  What a run does that an observer sees, in the order it happens: every value given to
  \<open>setStoryboard\<close> (the panel list as published) and every request sent to the service.
\<close>

datatype event = Published "StoryboardPanel list" | Called GenerateContentParameters

text \<open>
  The \<open>for\<close> loop over the script lines. \<open>newPanels\<close> is the local array of finished
  panels; its length is the number of calls the run has completed. A rejected call leaves
  the loop with the thrown value, with the state and the log as they are at that moment.
\<close>

fun generate_loop ::
    "Env \<Rightarrow> CharacterReference \<Rightarrow> jsstring list \<Rightarrow> StoryboardPanel list \<Rightarrow>
     Storyboard_state \<Rightarrow> event list \<Rightarrow>
     thrown option \<times> StoryboardPanel list \<times> Storyboard_state \<times> event list" where
  "generate_loop env ch [] newPanels s log = (None, newPanels, s, log)"
| "generate_loop env ch (line # rest) newPanels s log =
     (let prev = storyboard s;
          s1 = s\<lparr>storyboard := prev @ [pendingPanel (length prev)]\<rparr>;
          request = panelRequest ch line;
          log1 = log @ [Published (storyboard s1), Called request]
      in case generateContent env (length newPanels) request of
           Rejects e \<Rightarrow> (Some e, newPanels, s1, log1)
         | Resolves response \<Rightarrow>
             (let newPanels' = newPanels @ [finishedPanel env (length newPanels) line response];
                  s2 = s1\<lparr>storyboard := newPanels'\<rparr>
              in generate_loop env ch rest newPanels' s2 (log1 @ [Published newPanels'])))"

definition scriptLines :: "jsstring \<Rightarrow> jsstring list" where
  "scriptLines scr = filter (\<lambda>line. trim line \<noteq> []) (split 0xA (trim scr))"

definition Storyboard_handleGenerate ::
    "Env \<Rightarrow> Storyboard_state \<Rightarrow> Storyboard_state \<times> event list" where
  "Storyboard_handleGenerate env s =
     (case character s of
        None \<Rightarrow>
          (s\<lparr>error := Some (lit ''Please upload or create a character reference image.'')\<rparr>, [])
      | Some ch \<Rightarrow>
          if trim (script s) = [] then
            (s\<lparr>error := Some (lit ''Please enter a script for the storyboard.'')\<rparr>, [])
          else
            (let s1 = s\<lparr>isLoading := True, error := None, storyboard := []\<rparr>
             in case generate_loop env ch (scriptLines (script s)) [] s1 [Published []] of
                  (thrown, newPanels, s2, log) \<Rightarrow>
                    (let s3 = (case thrown of
                                 Some e \<Rightarrow>
                                   s2\<lparr>error :=
                                        Some (errorMessage e
                                          (lit ''An unknown error occurred during generation.''))\<rparr>
                               | None \<Rightarrow> s2)
                     in (s3\<lparr>isLoading := False\<rparr>, log))))"

fun calls :: "event list \<Rightarrow> GenerateContentParameters list" where
  "calls [] = []"
| "calls (Called r # es) = r # calls es"
| "calls (Published ps # es) = calls es"

fun published :: "event list \<Rightarrow> StoryboardPanel list list" where
  "published [] = []"
| "published (Published ps # es) = ps # published es"
| "published (Called r # es) = published es"

subsection \<open>How a panel is shown\<close>

text \<open>
  The tile of a panel: a spinner when \<open>panel.prompt === 'loading'\<close>, else the failure
  text when \<open>panel.src === 'error'\<close>, else the image.
\<close>

datatype display = Pending | Failed | Completed

definition panelDisplay :: "StoryboardPanel \<Rightarrow> display" where
  "panelDisplay panel =
     (if panel_prompt panel = lit ''loading'' then Pending
      else if panel_src panel = lit ''error'' then Failed
      else Completed)"

section \<open>The presentation shell (\<open>App\<close>)\<close>

datatype Tool = Tool_imageStudio | Tool_storyboard

text \<open>
  \<open>App\<close> renders \<open>{activeTool === 'imageStudio' && <ImageStudio />}\<close> and
  \<open>{activeTool === 'storyboard' && <StoryboardGenerator />}\<close>. A component whose place
  renders \<open>false\<close> is unmounted and its hook state is dropped; one whose place renders it
  anew is mounted with the initial values of its hooks; one rendered before and after
  keeps its state.
\<close>

record App_state =
  activeTool :: Tool
  imageStudioInstance :: "ImageStudio_state option"
  storyboardInstance :: "Storyboard_state option"

definition reconcile :: "bool \<Rightarrow> 'a \<Rightarrow> 'a option \<Rightarrow> 'a option" where
  "reconcile rendered initial instance =
     (if rendered then (case instance of Some st \<Rightarrow> Some st | None \<Rightarrow> Some initial)
      else None)"

definition render :: "Tool \<Rightarrow> App_state \<Rightarrow> App_state" where
  "render tool app =
     \<lparr>activeTool = tool,
      imageStudioInstance =
        reconcile (tool = Tool_imageStudio) ImageStudio_initial (imageStudioInstance app),
      storyboardInstance =
        reconcile (tool = Tool_storyboard) Storyboard_initial (storyboardInstance app)\<rparr>"

definition App_initial :: App_state where
  "App_initial =
     render Tool_imageStudio
       \<lparr>activeTool = Tool_imageStudio, imageStudioInstance = None, storyboardInstance = None\<rparr>"

definition setActiveTool :: "Tool \<Rightarrow> App_state \<Rightarrow> App_state" where
  "setActiveTool tool app = render tool app"

subsection \<open>Describing a run\<close>

text \<open>
  The three events of the \<open>k\<close>-th pass of the loop when its call resolves, given the
  script lines and the finished panels: the placeholder is appended to the \<open>k\<close> panels
  finished so far, the request for line \<open>k\<close> is sent, and the list of the \<open>k + 1\<close>
  finished panels is published.
\<close>

definition pass ::
    "CharacterReference \<Rightarrow> jsstring list \<Rightarrow> StoryboardPanel list \<Rightarrow> nat \<Rightarrow> event list" where
  "pass ch lines ps k =
     [Published (take k ps @ [pendingPanel k]),
      Called (panelRequest ch (lines ! k)),
      Published (take (Suc k) ps)]"

text \<open>The message that the \<open>catch\<close> of a run shows for a thrown value.\<close>

definition runError :: "thrown \<Rightarrow> jsstring" where
  "runError e = errorMessage e (lit ''An unknown error occurred during generation.'')"

text \<open>
  The non-blank lines of a script as it was typed: its lines, less those that are empty
  after trimming. (\<open>scriptLines\<close> above is what the code computes: it trims the whole
  script first.)
\<close>

definition nonBlankLines :: "jsstring \<Rightarrow> jsstring list" where
  "nonBlankLines scr = filter (\<lambda>line. trim line \<noteq> []) (split 0xA scr)"

section \<open>Concrete inputs\<close>

text \<open>Responses, services, and states on which the theorems below are exercised.\<close>

definition ex_blob :: Blob where
  "ex_blob = \<lparr>data = lit ''QUJD'', mimeType = lit ''image/png''\<rparr>"

definition ex_image_response :: GenerateContentResponse where
  "ex_image_response =
     \<lparr>candidates = Some [\<lparr>content = Some \<lparr>parts =
        Some [textPart (lit ''Here you go''), inlinePart (lit ''QUJD'') (lit ''image/png'')]\<rparr>\<rparr>]\<rparr>"

definition ex_text_response :: GenerateContentResponse where
  "ex_text_response =
     \<lparr>candidates = Some [\<lparr>content = Some \<lparr>parts = Some [textPart (lit ''Sorry'')]\<rparr>\<rparr>]\<rparr>"

definition ex_env :: "(nat \<Rightarrow> outcome) \<Rightarrow> Env" where
  "ex_env answers =
     \<lparr>generateContent = (\<lambda>n request. answers n), freshId = (\<lambda>n. lit ''panel-'' @ decimal n)\<rparr>"

definition ex_env_ok :: Env where
  "ex_env_ok = ex_env (\<lambda>n. Resolves ex_image_response)"

definition ex_env_noimage_at :: "nat \<Rightarrow> Env" where
  "ex_env_noimage_at k =
     ex_env (\<lambda>n. if n = k then Resolves ex_text_response else Resolves ex_image_response)"

definition ex_env_throw_at :: "nat \<Rightarrow> Env" where
  "ex_env_throw_at k =
     ex_env (\<lambda>n. if n = k then Rejects (Error (lit ''Failed to fetch''))
                  else Resolves ex_image_response)"

definition ex_file :: File where
  "ex_file = \<lparr>file_type = lit ''image/jpeg''\<rparr>"

definition ex_upload :: UploadedImage where
  "ex_upload = \<lparr>file = ex_file, base64 = lit ''Zm9v''\<rparr>"

definition ex_character :: CharacterReference where
  "ex_character =
     \<lparr>char_base64 = lit ''Zm9v'', char_mimeType = lit ''image/jpeg'',
      char_file = Some ex_file\<rparr>"

definition ex_panel :: StoryboardPanel where
  "ex_panel =
     \<lparr>panel_id = lit ''old'', panel_src = lit ''data:image/png;base64,QUJD'',
      panel_prompt = lit ''An old scene''\<rparr>"

definition ex_storyboard :: "jsstring \<Rightarrow> Storyboard_state" where
  "ex_storyboard scr = Storyboard_initial\<lparr>character := Some ex_character, script := scr\<rparr>"

text \<open>
  The single-image workflow after an upload, a typed prompt and a generation that returned
  an image, and after the same steps with a response that held no image.
\<close>

definition ex_studio :: ImageStudio_state where
  "ex_studio =
     \<lparr>prompt = lit ''a red fox'', inputImage = Some ex_upload,
      outputImage = Some (lit ''data:image/png;base64,QUJD''),
      studio_isLoading = False, studio_error = None\<rparr>"

definition ex_studio_failed :: ImageStudio_state where
  "ex_studio_failed =
     \<lparr>prompt = lit ''a red fox'', inputImage = Some ex_upload,
      outputImage = None, studio_isLoading = False,
      studio_error = Some (lit ''Image generation failed. The model did not return an image.'')\<rparr>"

definition ex_app :: App_state where
  "ex_app =
     \<lparr>activeTool = Tool_imageStudio, imageStudioInstance = Some ex_studio,
      storyboardInstance = None\<rparr>"

definition ex_describing :: Storyboard_state where
  "ex_describing =
     Storyboard_initial\<lparr>characterDescription := lit ''a ninja'', storyboard := [ex_panel]\<rparr>"

definition ex_blank_studio :: ImageStudio_state where
  "ex_blank_studio = ImageStudio_initial\<lparr>prompt := [0x20, 0x9, 0xA]\<rparr>"

definition ex_blank_storyboard :: Storyboard_state where
  "ex_blank_storyboard =
     (ex_storyboard [0x20, 0xA, 0x20, 0x20])
       \<lparr>characterDescription := [0x20], storyboard := [ex_panel]\<rparr>"

definition ex_two_lines :: Storyboard_state where
  "ex_two_lines = ex_storyboard (lit ''A | hi\<newline>\<newline> B '')"


definition ex_loading_line :: Storyboard_state where
  "ex_loading_line = ex_storyboard (lit ''intro\<newline>loading'')"


section \<open>Trimming and splitting\<close>

text \<open>A string trims to the empty string exactly when it is white space throughout.\<close>

lemma dropWhile_all_Nil: "(\<forall>c\<in>set (dropWhile P xs). P c) \<longleftrightarrow> dropWhile P xs = []"
proof
  assume h: "\<forall>c\<in>set (dropWhile P xs). P c"
  show "dropWhile P xs = []"
  proof (rule ccontr)
    assume n: "dropWhile P xs \<noteq> []"
    then have "\<not> P (hd (dropWhile P xs))" by (rule hd_dropWhile)
    moreover have "hd (dropWhile P xs) \<in> set (dropWhile P xs)" using n by simp
    ultimately show False using h by blast
  qed
next
  assume "dropWhile P xs = []"
  then show "\<forall>c\<in>set (dropWhile P xs). P c" by (auto dest: set_dropWhileD)
qed

lemma trim_Nil: "trim [] = []"
  by (simp add: trim_def)

lemma trim_Nil_iff: "trim s = [] \<longleftrightarrow> (\<forall>c\<in>set s. is_ws c)"
proof -
  have "trim s = [] \<longleftrightarrow> (\<forall>c\<in>set (dropWhile is_ws (rev s)). is_ws c)"
    by (simp add: trim_def dropWhile_eq_Nil_conv)
  also have "\<dots> \<longleftrightarrow> dropWhile is_ws (rev s) = []" by (rule dropWhile_all_Nil)
  also have "\<dots> \<longleftrightarrow> (\<forall>c\<in>set s. is_ws c)" by (simp add: dropWhile_eq_Nil_conv)
  finally show ?thesis .
qed

lemma trim_Cons_ws: "is_ws c \<Longrightarrow> trim (c # l) = [] \<longleftrightarrow> trim l = []"
  by (simp add: trim_Nil_iff)

lemma newline_is_ws: "is_ws 0xA"
  by (simp add: is_ws_def)

lemma trim_decompose:
  "\<exists>w1 w2. s = w1 @ trim s @ w2 \<and> (\<forall>c\<in>set w1. is_ws c) \<and> (\<forall>c\<in>set w2. is_ws c)"
proof -
  let ?u = "rev (dropWhile is_ws (rev s))"
  let ?w2 = "rev (takeWhile is_ws (rev s))"
  let ?w1 = "takeWhile is_ws ?u"
  have "rev s = takeWhile is_ws (rev s) @ dropWhile is_ws (rev s)" by simp
  then have "rev (rev s) = rev (takeWhile is_ws (rev s) @ dropWhile is_ws (rev s))" by simp
  then have s: "s = ?u @ ?w2" by (simp only: rev_rev_ident rev_append)
  have u: "?u = ?w1 @ trim s" by (simp add: trim_def)
  have "s = ?w1 @ trim s @ ?w2" using s u by (metis append.assoc)
  moreover have "\<forall>c\<in>set ?w1. is_ws c" by (auto dest: set_takeWhileD)
  moreover have "\<forall>c\<in>set ?w2. is_ws c" by (auto dest: set_takeWhileD)
  ultimately show ?thesis by blast
qed

lemma split_not_Nil: "split d s \<noteq> []"
  by (induction s) auto

lemma split_covers: "set s \<subseteq> (\<Union>l\<in>set (split d s). set l) \<union> {d}"
proof (induction s)
  case Nil
  then show ?case by simp
next
  case (Cons c cs)
  obtain l ls where sp: "split d cs = l # ls"
    using split_not_Nil [of d cs] by (cases "split d cs") auto
  with Cons show ?case by auto
qed

lemma split_within: "l \<in> set (split d s) \<Longrightarrow> set l \<subseteq> set s"
proof (induction s arbitrary: l)
  case Nil
  then show ?case by simp
next
  case (Cons c cs)
  obtain l' ls where sp: "split d cs = l' # ls"
    using split_not_Nil [of d cs] by (cases "split d cs") auto
  show ?case
  proof (cases "c = d")
    case True
    with Cons show ?thesis by (auto split: if_splits)
  next
    case False
    with Cons.prems sp have "l = c # l' \<or> l \<in> set ls" by auto
    then show ?thesis
    proof
      assume "l = c # l'"
      moreover have "set l' \<subseteq> set cs" using Cons.IH [of l'] sp by simp
      ultimately show ?thesis by auto
    next
      assume "l \<in> set ls"
      then have "set l \<subseteq> set cs" using Cons.IH [of l] sp by simp
      then show ?thesis by auto
    qed
  qed
qed

lemma split_hd: "hd (split d s) = takeWhile (\<lambda>c. c \<noteq> d) s"
  by (induction s) auto

lemma split_tl:
  "tl (split d s) =
     (if d \<in> set s then split d (tl (dropWhile (\<lambda>c. c \<noteq> d) s)) else [])"
  by (induction s) auto

lemma count_split:
  "length (filter P (split d s))
     = (if P (hd (split d s)) then 1 else 0) + length (filter P (tl (split d s)))"
  using split_not_Nil [of d s] by (cases "split d s") simp_all

lemma at_0: "at xs 0 = (if xs = [] then None else Some (hd xs))"
  by (cases xs) (auto simp: at_def)

lemma at_1: "at xs (Suc 0) = (if tl xs = [] then None else Some (hd (tl xs)))"
  by (cases xs; cases "tl xs") (auto simp: at_def)

section \<open>The lines of a script\<close>

text \<open>
  The code trims the script before it splits it. Leading and trailing white space adds
  blank lines or pads the first and the last line, so the number of non-blank lines is
  that of the script as typed.
\<close>

lemma all_lines_blank_iff:
  "(\<forall>line\<in>set (split 0xA s). trim line = []) \<longleftrightarrow> trim s = []"
proof
  assume h: "\<forall>line\<in>set (split 0xA s). trim line = []"
  have "\<forall>c\<in>set s. is_ws c"
  proof
    fix c assume "c \<in> set s"
    then have "c \<in> (\<Union>l\<in>set (split 0xA s). set l) \<union> {0xA}"
      using split_covers [of s "0xA"] by blast
    then show "is_ws c" using h newline_is_ws by (auto simp: trim_Nil_iff)
  qed
  then show "trim s = []" by (simp add: trim_Nil_iff)
next
  assume "trim s = []"
  then show "\<forall>line\<in>set (split 0xA s). trim line = []"
    using split_within [of _ "0xA" s] by (auto simp: trim_Nil_iff)
qed

lemma blank_lines_of_ws:
  assumes "\<forall>c\<in>set w. is_ws c" and "l \<in> set (split d w)"
  shows "trim l = []"
  using assms split_within [of l d w] by (auto simp: trim_Nil_iff)

lemma scriptLines_Nil: "trim scr = [] \<Longrightarrow> scriptLines scr = []"
  by (simp add: scriptLines_def trim_Nil)

lemma scriptLines_nonblank: "scriptLines scr \<noteq> [] \<Longrightarrow> trim scr \<noteq> []"
  using scriptLines_Nil by blast

lemma nonBlank_Cons_ws:
  assumes "is_ws c"
  shows "length (nonBlankLines (c # s)) = length (nonBlankLines s)"
proof (cases "c = 0xA")
  case True
  then show ?thesis by (simp add: nonBlankLines_def trim_Nil)
next
  case False
  have "length (nonBlankLines (c # s))
      = length (filter (\<lambda>line. trim line \<noteq> []) ((c # hd (split 0xA s)) # tl (split 0xA s)))"
    using False by (simp add: nonBlankLines_def)
  also have "\<dots> = length (filter (\<lambda>line. trim line \<noteq> []) (hd (split 0xA s) # tl (split 0xA s)))"
    using assms by (simp add: trim_Cons_ws)
  also have "\<dots> = length (nonBlankLines s)"
    unfolding nonBlankLines_def count_split [of _ "0xA" s] by simp
  finally show ?thesis .
qed

lemma nonBlank_prefix:
  "\<forall>c\<in>set w. is_ws c \<Longrightarrow> length (nonBlankLines (w @ s)) = length (nonBlankLines s)"
  by (induction w) (simp_all add: nonBlank_Cons_ws)

lemma nonBlank_suffix_aux:
  assumes w: "\<forall>c\<in>set w. is_ws c"
  shows "(trim (hd (split 0xA (s @ w))) = [] \<longleftrightarrow> trim (hd (split 0xA s)) = []) \<and>
         length (filter (\<lambda>line. trim line \<noteq> []) (tl (split 0xA (s @ w))))
           = length (filter (\<lambda>line. trim line \<noteq> []) (tl (split 0xA s)))"
proof (induction s)
  case Nil
  have h: "hd (split 0xA w) \<in> set (split 0xA w)"
    using split_not_Nil [of "0xA" w] by simp
  have t: "\<forall>l\<in>set (tl (split 0xA w)). trim l = []"
    using blank_lines_of_ws [OF w] split_not_Nil [of "0xA" w]
    by (metis list.set_sel(2))
  have "filter (\<lambda>line. trim line \<noteq> []) (tl (split 0xA w)) = []"
    using t by (simp add: filter_empty_conv)
  then show ?case using blank_lines_of_ws [OF w h] by (simp add: trim_Nil)
next
  case (Cons c s)
  show ?case
  proof (cases "c = 0xA")
    case True
    have "length (filter (\<lambda>line. trim line \<noteq> []) (split 0xA (s @ w)))
        = length (filter (\<lambda>line. trim line \<noteq> []) (split 0xA s))"
      unfolding count_split [of _ "0xA" "s @ w"] count_split [of _ "0xA" s]
      using Cons.IH by simp
    then show ?thesis using True by (simp add: trim_Nil)
  next
    case False
    then show ?thesis using Cons.IH by (simp add: trim_Nil_iff)
  qed
qed

lemma nonBlank_suffix:
  assumes "\<forall>c\<in>set w. is_ws c"
  shows "length (nonBlankLines (s @ w)) = length (nonBlankLines s)"
proof -
  show ?thesis
    unfolding nonBlankLines_def count_split [of _ "0xA" "s @ w"] count_split [of _ "0xA" s]
    using nonBlank_suffix_aux [OF assms, of s] by simp
qed

lemma scriptLines_count: "length (scriptLines scr) = length (nonBlankLines scr)"
proof -
  obtain w1 w2 where d: "scr = w1 @ trim scr @ w2"
    and w1: "\<forall>c\<in>set w1. is_ws c" and w2: "\<forall>c\<in>set w2. is_ws c"
    using trim_decompose by blast
  have "length (nonBlankLines scr) = length (nonBlankLines (w1 @ (trim scr @ w2)))"
    using d by simp
  also have "\<dots> = length (nonBlankLines (trim scr @ w2))" by (rule nonBlank_prefix [OF w1])
  also have "\<dots> = length (nonBlankLines (trim scr))" by (rule nonBlank_suffix [OF w2])
  finally show ?thesis by (simp add: scriptLines_def nonBlankLines_def)
qed














section \<open>The loop of a storyboard run\<close>

text \<open>
  The loop over a list of lines is the loop over a first part followed, unless a call
  threw, by the loop over the rest. When the first \<open>j\<close> calls resolve and the next one,
  if there is one, rejects, the result of the loop is known in full.
\<close>

lemma loop_resolves:
  "generateContent env (length np) (panelRequest ch line) = Resolves r \<Longrightarrow>
   generate_loop env ch (line # rest) np s log =
     generate_loop env ch rest (np @ [finishedPanel env (length np) line r])
       (s\<lparr>storyboard := np @ [finishedPanel env (length np) line r]\<rparr>)
       (log @ [Published (storyboard s @ [pendingPanel (length (storyboard s))]),
               Called (panelRequest ch line),
               Published (np @ [finishedPanel env (length np) line r])])"
  by (simp add: Let_def)

lemma loop_rejects:
  "generateContent env (length np) (panelRequest ch line) = Rejects e \<Longrightarrow>
   generate_loop env ch (line # rest) np s log =
     (Some e, np, s\<lparr>storyboard := storyboard s @ [pendingPanel (length (storyboard s))]\<rparr>,
      log @ [Published (storyboard s @ [pendingPanel (length (storyboard s))]),
             Called (panelRequest ch line)])"
  by (simp add: Let_def)

lemma loop_append:
  "generate_loop env ch (xs @ ys) np s log =
     (case generate_loop env ch xs np s log of
        (None, np', s', log') \<Rightarrow> generate_loop env ch ys np' s' log'
      | (Some e, r) \<Rightarrow> (Some e, r))"
proof (induction xs arbitrary: np s log)
  case Nil
  show ?case by simp
next
  case (Cons line rest)
  show ?case
  proof (cases "generateContent env (length np) (panelRequest ch line)")
    case (Resolves r)
    show ?thesis
      unfolding append_Cons loop_resolves [OF Resolves] by (rule Cons.IH)
  next
    case (Rejects e)
    show ?thesis
      unfolding append_Cons loop_rejects [OF Rejects] by simp
  qed
qed

lemma loop_all_resolve:
  assumes "storyboard s = np"
      and "\<forall>i<length xs. \<exists>r. generateContent env (length np + i) (panelRequest ch (xs ! i)) = Resolves r"
  shows "\<exists>ps. length ps = length xs \<and>
           (\<forall>i<length xs. \<forall>r.
              generateContent env (length np + i) (panelRequest ch (xs ! i)) = Resolves r \<longrightarrow>
              ps ! i = finishedPanel env (length np + i) (xs ! i) r) \<and>
           generate_loop env ch xs np s log =
             (None, np @ ps, s\<lparr>storyboard := np @ ps\<rparr>,
              log @ concat (map (\<lambda>k.
                 [Published (np @ take k ps @ [pendingPanel (length np + k)]),
                  Called (panelRequest ch (xs ! k)),
                  Published (np @ take (Suc k) ps)]) [0..<length xs]))"
  using assms
proof (induction xs arbitrary: np s log)
  case Nil
  then show ?case by simp
next
  case (Cons line rest)
  from Cons.prems(2) obtain r where
    r: "generateContent env (length np) (panelRequest ch line) = Resolves r"
    by fastforce
  let ?fp = "finishedPanel env (length np) line r"
  let ?np = "np @ [?fp]"
  let ?s = "s\<lparr>storyboard := ?np\<rparr>"
  let ?log = "log @ [Published (storyboard s @ [pendingPanel (length (storyboard s))]),
               Called (panelRequest ch line), Published ?np]"
  have a: "storyboard ?s = ?np" by simp
  have b: "\<forall>i<length rest. \<exists>r. generateContent env (length ?np + i) (panelRequest ch (rest ! i)) = Resolves r"
  proof (intro allI impI)
    fix i assume "i < length rest"
    then have "Suc i < length (line # rest)" by simp
    with Cons.prems(2) have "\<exists>r. generateContent env (length np + Suc i) (panelRequest ch ((line # rest) ! Suc i)) = Resolves r"
      by blast
    then show "\<exists>r. generateContent env (length ?np + i) (panelRequest ch (rest ! i)) = Resolves r"
      by simp
  qed
  from Cons.IH [OF a b, of ?log] obtain ps where
    len: "length ps = length rest" and
    cont: "\<forall>i<length rest. \<forall>r.
              generateContent env (length ?np + i) (panelRequest ch (rest ! i)) = Resolves r \<longrightarrow>
              ps ! i = finishedPanel env (length ?np + i) (rest ! i) r" and
    run: "generate_loop env ch rest ?np ?s ?log =
             (None, ?np @ ps, ?s\<lparr>storyboard := ?np @ ps\<rparr>,
              ?log @ concat (map (\<lambda>k.
                 [Published (?np @ take k ps @ [pendingPanel (length ?np + k)]),
                  Called (panelRequest ch (rest ! k)),
                  Published (?np @ take (Suc k) ps)]) [0..<length rest]))"
    by blast
  let ?ps = "?fp # ps"
  have 1: "length ?ps = length (line # rest)" using len by simp
  have 2: "\<forall>i<length (line # rest). \<forall>r'.
              generateContent env (length np + i) (panelRequest ch ((line # rest) ! i)) = Resolves r' \<longrightarrow>
              ?ps ! i = finishedPanel env (length np + i) ((line # rest) ! i) r'"
  proof (intro allI impI)
    fix i r'
    assume i: "i < length (line # rest)"
      and g: "generateContent env (length np + i) (panelRequest ch ((line # rest) ! i)) = Resolves r'"
    show "?ps ! i = finishedPanel env (length np + i) ((line # rest) ! i) r'"
    proof (cases i)
      case 0
      with g r show ?thesis by simp
    next
      case (Suc i')
      with i g cont show ?thesis by simp
    qed
  qed
  have 3: "generate_loop env ch (line # rest) np s log =
             (None, np @ ?ps, s\<lparr>storyboard := np @ ?ps\<rparr>,
              log @ concat (map (\<lambda>k.
                 [Published (np @ take k ?ps @ [pendingPanel (length np + k)]),
                  Called (panelRequest ch ((line # rest) ! k)),
                  Published (np @ take (Suc k) ?ps)]) [0..<length (line # rest)]))"
    unfolding loop_resolves [OF r] run
    using Cons.prems(1) by (simp add: map_upt_Suc del: upt_Suc)
  from 1 2 3 show ?case by blast
qed

lemma loop_run:
  assumes inv: "storyboard s = []"
      and j: "j \<le> length xs"
      and ok: "\<forall>i<j. \<exists>r. generateContent env i (panelRequest ch (xs ! i)) = Resolves r"
      and bad: "j < length xs \<Longrightarrow> generateContent env j (panelRequest ch (xs ! j)) = Rejects e"
  shows "\<exists>ps. length ps = j \<and>
           (\<forall>i<j. \<forall>r. generateContent env i (panelRequest ch (xs ! i)) = Resolves r \<longrightarrow>
                     ps ! i = finishedPanel env i (xs ! i) r) \<and>
           generate_loop env ch xs [] s log =
             (if j < length xs then Some e else None, ps,
              s\<lparr>storyboard := (if j < length xs then ps @ [pendingPanel j] else ps)\<rparr>,
              log @ concat (map (pass ch xs ps) [0..<j])
                  @ (if j < length xs
                     then [Published (ps @ [pendingPanel j]), Called (panelRequest ch (xs ! j))]
                     else []))"
proof -
  have ok': "\<forall>i<length (take j xs). \<exists>r.
      generateContent env (length ([]::StoryboardPanel list) + i) (panelRequest ch (take j xs ! i)) = Resolves r"
    using ok j by simp
  from loop_all_resolve [OF inv ok', of log] obtain ps where
    len: "length ps = j" and
    cont: "\<forall>i<j. \<forall>r. generateContent env i (panelRequest ch (xs ! i)) = Resolves r \<longrightarrow>
                     ps ! i = finishedPanel env i (xs ! i) r" and
    run: "generate_loop env ch (take j xs) [] s log =
            (None, ps, s\<lparr>storyboard := ps\<rparr>,
             log @ concat (map (\<lambda>k.
                 [Published (take k ps @ [pendingPanel k]),
                  Called (panelRequest ch (take j xs ! k)),
                  Published (take (Suc k) ps)]) [0..<j]))"
    using j by auto
  have logeq: "concat (map (\<lambda>k.
                 [Published (take k ps @ [pendingPanel k]),
                  Called (panelRequest ch (take j xs ! k)),
                  Published (take (Suc k) ps)]) [0..<j]) = concat (map (pass ch xs ps) [0..<j])"
    by (rule arg_cong [where f = concat], rule map_cong) (simp_all add: pass_def)
  have split: "generate_loop env ch xs [] s log =
      generate_loop env ch (drop j xs) ps (s\<lparr>storyboard := ps\<rparr>)
        (log @ concat (map (pass ch xs ps) [0..<j]))"
    using loop_append [of env ch "take j xs" "drop j xs" "[]" s log] run logeq by simp
  have fin: "generate_loop env ch xs [] s log =
             (if j < length xs then Some e else None, ps,
              s\<lparr>storyboard := (if j < length xs then ps @ [pendingPanel j] else ps)\<rparr>,
              log @ concat (map (pass ch xs ps) [0..<j])
                  @ (if j < length xs
                     then [Published (ps @ [pendingPanel j]), Called (panelRequest ch (xs ! j))]
                     else []))"
  proof (cases "j < length xs")
    case True
    then have d: "drop j xs = xs ! j # drop (Suc j) xs" by (simp add: Cons_nth_drop_Suc)
    have rej: "generateContent env (length ps) (panelRequest ch (xs ! j)) = Rejects e"
      using bad [OF True] len by simp
    show ?thesis
      unfolding split d loop_rejects [OF rej] using True len by simp
  next
    case False
    with j have "drop j xs = []" by simp
    then show ?thesis unfolding split using False by simp
  qed
  from len cont fin show ?thesis by blast
qed

lemma first_reject:
  "\<exists>j\<le>n::nat. (\<forall>i<j. \<exists>r. P i = Resolves r) \<and> (j < n \<longrightarrow> (\<exists>e. P j = Rejects e))"
proof (induction n)
  case 0
  show ?case by simp
next
  case (Suc n)
  then obtain j where j: "j \<le> n" "\<forall>i<j. \<exists>r. P i = Resolves r" "j < n \<longrightarrow> (\<exists>e. P j = Rejects e)"
    by blast
  show ?case
  proof (cases "j < n")
    case True
    with j show ?thesis by (intro exI [of _ j]) auto
  next
    case False
    with j have jn: "j = n" by simp
    show ?thesis
    proof (cases "P n")
      case (Resolves r)
      with j jn have "\<forall>i<Suc n. \<exists>r. P i = Resolves r" by (auto simp: less_Suc_eq)
      then show ?thesis by (intro exI [of _ "Suc n"]) auto
    next
      case (Rejects e)
      with j jn show ?thesis by (intro exI [of _ n]) auto
    qed
  qed
qed

lemma handleGenerate_run:
  assumes ch: "character s = Some ch"
      and nb: "trim (script s) \<noteq> []"
      and j: "j \<le> length (scriptLines (script s))"
      and ok: "\<forall>i<j. \<exists>r. generateContent env i (panelRequest ch (scriptLines (script s) ! i)) = Resolves r"
      and bad: "j < length (scriptLines (script s)) \<Longrightarrow>
                 generateContent env j (panelRequest ch (scriptLines (script s) ! j)) = Rejects e"
  shows "\<exists>ps. length ps = j \<and>
           (\<forall>i<j. \<forall>r. generateContent env i (panelRequest ch (scriptLines (script s) ! i)) = Resolves r \<longrightarrow>
                     ps ! i = finishedPanel env i (scriptLines (script s) ! i) r) \<and>
           Storyboard_handleGenerate env s =
             (s\<lparr>isLoading := False,
                error := (if j < length (scriptLines (script s)) then Some (runError e) else None),
                storyboard := (if j < length (scriptLines (script s)) then ps @ [pendingPanel j] else ps)\<rparr>,
              Published [] # concat (map (pass ch (scriptLines (script s)) ps) [0..<j])
                  @ (if j < length (scriptLines (script s))
                     then [Published (ps @ [pendingPanel j]),
                           Called (panelRequest ch (scriptLines (script s) ! j))]
                     else []))"
proof -
  let ?s1 = "s\<lparr>isLoading := True, error := None, storyboard := []\<rparr>"
  have inv: "storyboard ?s1 = []" by simp
  from loop_run [OF inv j ok bad, of "[Published []]"] obtain ps where
    len: "length ps = j" and
    cont: "\<forall>i<j. \<forall>r. generateContent env i (panelRequest ch (scriptLines (script s) ! i)) = Resolves r \<longrightarrow>
                     ps ! i = finishedPanel env i (scriptLines (script s) ! i) r" and
    run: "generate_loop env ch (scriptLines (script s)) [] ?s1 [Published []] =
             (if j < length (scriptLines (script s)) then Some e else None, ps,
              ?s1\<lparr>storyboard := (if j < length (scriptLines (script s)) then ps @ [pendingPanel j] else ps)\<rparr>,
              [Published []] @ concat (map (pass ch (scriptLines (script s)) ps) [0..<j])
                  @ (if j < length (scriptLines (script s))
                     then [Published (ps @ [pendingPanel j]), Called (panelRequest ch (scriptLines (script s) ! j))]
                     else []))"
    by blast
  have "Storyboard_handleGenerate env s =
             (s\<lparr>isLoading := False,
                error := (if j < length (scriptLines (script s)) then Some (runError e) else None),
                storyboard := (if j < length (scriptLines (script s)) then ps @ [pendingPanel j] else ps)\<rparr>,
              Published [] # concat (map (pass ch (scriptLines (script s)) ps) [0..<j])
                  @ (if j < length (scriptLines (script s))
                     then [Published (ps @ [pendingPanel j]),
                           Called (panelRequest ch (scriptLines (script s) ! j))]
                     else []))"
    unfolding Storyboard_handleGenerate_def using ch nb
    by (simp add: run runError_def Let_def)
  with len cont show ?thesis by blast
qed

section \<open>The log of a run\<close>

lemma calls_append: "calls (xs @ ys) = calls xs @ calls ys"
  by (induction xs rule: calls.induct) simp_all

lemma published_append: "published (xs @ ys) = published xs @ published ys"
  by (induction xs rule: published.induct) simp_all

lemma calls_passes:
  "calls (concat (map (pass ch xs ps) ks)) = map (\<lambda>k. panelRequest ch (xs ! k)) ks"
  by (induction ks) (simp_all add: calls_append pass_def)

lemma published_passes:
  "published (concat (map (pass ch xs ps) ks))
     = concat (map (\<lambda>k. [take k ps @ [pendingPanel k], take (Suc k) ps]) ks)"
  by (induction ks) (simp_all add: published_append pass_def)

lemma length_pairs: "length (concat (map (\<lambda>k. [f k, g k]) [0..<n])) = 2 * n"
  by (induction n) simp_all

lemma nth_pairs:
  "i < n \<Longrightarrow>
   concat (map (\<lambda>k. [f k, g k]) [0..<n]) ! (2 * i) = f i \<and>
   concat (map (\<lambda>k. [f k, g k]) [0..<n]) ! Suc (2 * i) = g i"
proof (induction n)
  case 0
  then show ?case by simp
next
  case (Suc n)
  show ?case
  proof (cases "i < n")
    case True
    then have "2 * i < 2 * n" "Suc (2 * i) < 2 * n" by simp_all
    with Suc.IH [OF True] show ?thesis
      by (simp add: nth_append length_pairs)
  next
    case False
    with Suc.prems have "i = n" by simp
    then show ?thesis by (simp add: nth_append length_pairs)
  qed
qed

lemma map_nth_take: "j \<le> length xs \<Longrightarrow> map (\<lambda>k. f (xs ! k)) [0..<j] = map f (take j xs)"
  by (rule nth_equalityI) simp_all

lemma calls_run:
  assumes "j \<le> length xs"
  shows "calls (Published [] # concat (map (pass ch xs ps) [0..<j])
                @ (if j < length xs
                   then [Published (ps @ [pendingPanel j]), Called (panelRequest ch (xs ! j))]
                   else []))
           = map (panelRequest ch) (take (Suc j) xs)"
proof (cases "j < length xs")
  case True
  then show ?thesis
    using assms by (simp add: calls_append calls_passes map_nth_take take_Suc_conv_app_nth)
next
  case False
  then show ?thesis
    using assms by (simp add: calls_append calls_passes map_nth_take)
qed

lemma published_run:
  "published (Published [] # concat (map (pass ch xs ps) [0..<j]) @ rest)
     = [] # concat (map (\<lambda>k. [take k ps @ [pendingPanel k], take (Suc k) ps]) [0..<j])
          @ published rest"
  by (simp add: published_append published_passes)

lemma panel_prompt_finished: "panel_prompt (finishedPanel env n line r) = line"
  by (simp add: finishedPanel_def split: option.split)

lemma panel_after_run:
  assumes ch: "character s = Some ch"
      and k: "k < length (scriptLines (script s))"
      and ok: "\<forall>i<k. \<exists>r. generateContent env i (panelRequest ch (scriptLines (script s) ! i)) = Resolves r"
      and at_k: "generateContent env k (panelRequest ch (scriptLines (script s) ! k)) = Resolves response"
  shows "k < length (storyboard (fst (Storyboard_handleGenerate env s))) \<and>
         storyboard (fst (Storyboard_handleGenerate env s)) ! k
           = finishedPanel env k (scriptLines (script s) ! k) response \<and>
         published (snd (Storyboard_handleGenerate env s)) ! Suc (2 * k)
           = take k (storyboard (fst (Storyboard_handleGenerate env s))) @ [pendingPanel k] \<and>
         published (snd (Storyboard_handleGenerate env s)) ! Suc (Suc (2 * k))
           = take (Suc k) (storyboard (fst (Storyboard_handleGenerate env s))) \<and>
         (Suc k < length (scriptLines (script s)) \<longrightarrow>
            Suc k < length (calls (snd (Storyboard_handleGenerate env s))) \<and>
            calls (snd (Storyboard_handleGenerate env s)) ! Suc k
              = panelRequest ch (scriptLines (script s) ! Suc k))"
proof -
  let ?lines = "scriptLines (script s)"
  let ?P = "\<lambda>i. generateContent env i (panelRequest ch (?lines ! i))"
  from first_reject [of "length ?lines" ?P] obtain j where
    j: "j \<le> length ?lines" and
    okj: "\<forall>i<j. \<exists>r. ?P i = Resolves r" and
    badj: "j < length ?lines \<longrightarrow> (\<exists>e. ?P j = Rejects e)"
    by blast
  have kj: "k < j"
  proof (rule ccontr)
    assume "\<not> k < j"
    then have jk: "j \<le> k" by simp
    with k have "j < length ?lines" by simp
    with badj obtain e where e: "?P j = Rejects e" by blast
    have "\<exists>r. ?P j = Resolves r"
    proof (cases "j = k")
      case True
      with at_k show ?thesis by simp
    next
      case False
      with jk have "j < k" by simp
      with ok show ?thesis by blast
    qed
    with e show False by simp
  qed
  obtain e where bad: "j < length ?lines \<Longrightarrow> ?P j = Rejects e"
    using badj by (cases "j < length ?lines") auto
  have "?lines \<noteq> []" using k by auto
  then have nb: "trim (script s) \<noteq> []" by (rule scriptLines_nonblank)
  from handleGenerate_run [OF ch nb j okj bad] obtain ps where
    lps: "length ps = j" and
    cont: "\<forall>i<j. \<forall>r. ?P i = Resolves r \<longrightarrow> ps ! i = finishedPanel env i (?lines ! i) r" and
    run: "Storyboard_handleGenerate env s =
             (s\<lparr>isLoading := False,
                error := (if j < length ?lines then Some (runError e) else None),
                storyboard := (if j < length ?lines then ps @ [pendingPanel j] else ps)\<rparr>,
              Published [] # concat (map (pass ch ?lines ps) [0..<j])
                  @ (if j < length ?lines
                     then [Published (ps @ [pendingPanel j]), Called (panelRequest ch (?lines ! j))]
                     else []))"
    by blast
  let ?final = "storyboard (fst (Storyboard_handleGenerate env s))"
  let ?log = "snd (Storyboard_handleGenerate env s)"
  have fin: "?final = (if j < length ?lines then ps @ [pendingPanel j] else ps)"
    by (simp add: run)
  have 1: "k < length ?final" using kj lps by (simp add: fin)
  have "ps ! k = finishedPanel env k (?lines ! k) response"
    using cont kj at_k by blast
  then have 2: "?final ! k = finishedPanel env k (?lines ! k) response"
    using kj lps by (simp add: fin nth_append)
  have tk: "take k ?final = take k ps" "take (Suc k) ?final = take (Suc k) ps"
    using kj lps by (simp_all add: fin)
  let ?pairs = "concat (map (\<lambda>k. [take k ps @ [pendingPanel k], take (Suc k) ps]) [0..<j])"
  have pub: "published ?log = [] # ?pairs @
      published (if j < length ?lines
                 then [Published (ps @ [pendingPanel j]), Called (panelRequest ch (?lines ! j))]
                 else [])"
    unfolding run snd_conv by (rule published_run)
  have inb: "2 * k < length ?pairs" "Suc (2 * k) < length ?pairs"
    using kj by (simp_all add: length_pairs)
  have 3: "published ?log ! Suc (2 * k) = take k ?final @ [pendingPanel k]"
    using nth_pairs [OF kj, of "\<lambda>k. take k ps @ [pendingPanel k]" "\<lambda>k. take (Suc k) ps"] inb
    by (simp add: pub tk nth_append)
  have 4: "published ?log ! Suc (Suc (2 * k)) = take (Suc k) ?final"
    using nth_pairs [OF kj, of "\<lambda>k. take k ps @ [pendingPanel k]" "\<lambda>k. take (Suc k) ps"] inb
    by (simp add: pub tk nth_append)
  have cl: "calls ?log = map (panelRequest ch) (take (Suc j) ?lines)"
    unfolding run snd_conv by (rule calls_run [OF j])
  have 5: "Suc k < length ?lines \<longrightarrow>
            Suc k < length (calls ?log) \<and> calls ?log ! Suc k = panelRequest ch (?lines ! Suc k)"
    using kj by (simp add: cl)
  from 1 2 3 4 5 show ?thesis by blast
qed

section \<open>The concrete inputs, evaluated\<close>

lemma ex_two_lines_scriptLines: "scriptLines (script ex_two_lines) = [lit ''A | hi'', lit '' B'']"
  by (simp add: ex_two_lines_def ex_storyboard_def scriptLines_def lit_def trim_def is_ws_def)


lemma ex_loading_line_scriptLines:
  "scriptLines (script ex_loading_line) = [lit ''intro'', lit ''loading'']"
  by (simp add: ex_loading_line_def ex_storyboard_def scriptLines_def lit_def trim_def is_ws_def)

lemma ex_text_response_no_image: "imagePartInlineData ex_text_response = None"
  by (simp add: imagePartInlineData_def imagePart_def ex_text_response_def at_def textPart_def)

lemma ex_image_response_image: "imagePartInlineData ex_image_response = Some ex_blob"
  by (simp add: imagePartInlineData_def imagePart_def ex_image_response_def at_def
      textPart_def inlinePart_def ex_blob_def)

lemma ex_env_throw_at_answer:
  "generateContent (ex_env_throw_at k) n r =
     (if n = k then Rejects (Error (lit ''Failed to fetch'')) else Resolves ex_image_response)"
  by (simp add: ex_env_throw_at_def ex_env_def)

lemma ex_env_throw_at_id: "freshId (ex_env_throw_at k) n = lit ''panel-'' @ decimal n"
  by (simp add: ex_env_throw_at_def ex_env_def)





section \<open>The script format\<close>

text \<open>
  Claim C5, as amended. A line is cut at every \<open>|\<close>, not only at the first: the scene
  description is the trimmed text before the first \<open>|\<close>, and the caption is the trimmed
  text between the first \<open>|\<close> and the second one (or the end of the line when there is
  no second one). A line without \<open>|\<close> has no caption.
\<close>

theorem C5_fields_of_a_line:
  "sceneDescription line = Some (trim (takeWhile (\<lambda>c. c \<noteq> 0x7C) line)) \<and>
   textContent line =
     (if 0x7C \<in> set line
      then Some (trim (takeWhile (\<lambda>c. c \<noteq> 0x7C) (tl (dropWhile (\<lambda>c. c \<noteq> 0x7C) line))))
      else None)"
proof -
  let ?fs = "split 0x7C line"
  have ne: "?fs \<noteq> []" by (rule split_not_Nil)
  have scene: "sceneDescription line = Some (trim (hd ?fs))"
    using ne by (simp add: sceneDescription_def lineFields_def at_0 hd_map)
  have cap: "textContent line = (if tl ?fs = [] then None else Some (trim (hd (tl ?fs))))"
    by (cases "tl ?fs") (simp_all add: textContent_def lineFields_def at_1 map_tl [symmetric])
  show ?thesis
    using scene cap split_not_Nil [of "0x7C" "tl (dropWhile (\<lambda>c. c \<noteq> 0x7C) line)"]
    by (simp add: split_hd split_tl)
qed

theorem C5_fields_of_a_line_witness:
  "sceneDescription (lit ''A | B | C'') = Some (lit ''A'') \<and>
   textContent (lit ''A | B | C'') = Some (lit ''B'') \<and>
   textContent (lit ''A'') = None"
  using C5_fields_of_a_line [of "lit ''A | B | C''"] C5_fields_of_a_line [of "lit ''A''"]
  by (simp add: lit_def trim_def is_ws_def)

text \<open>
  The line \<open>A | B | C\<close> has the caption \<open>B\<close>, not \<open>B | C\<close>: what follows the second
  \<open>|\<close> is dropped.
\<close>

theorem C5_first_bar_counterexample:
  "textContent (lit ''A | B | C'') = Some (lit ''B'') \<and>
   textContent (lit ''A | B | C'') \<noteq> Some (lit ''B | C'')"
  by (simp add: textContent_def lineFields_def at_def lit_def trim_def is_ws_def)


section \<open>The single-image workflow\<close>

text \<open>
  Claim C9, as amended. Uploading an input image resets the output image and the error
  message and keeps the prompt. Clearing the input image removes the input image only:
  the output image, the error message and the prompt stay as they are.
\<close>

theorem C9_clear_keeps_output_and_error:
  "inputImage (ImageStudio_handleClearImage s) = None \<and>
   outputImage (ImageStudio_handleClearImage s) = outputImage s \<and>
   studio_error (ImageStudio_handleClearImage s) = studio_error s \<and>
   prompt (ImageStudio_handleClearImage s) = prompt s \<and>
   inputImage (ImageStudio_handleImageUpload img s) = Some img \<and>
   outputImage (ImageStudio_handleImageUpload img s) = None \<and>
   studio_error (ImageStudio_handleImageUpload img s) = None \<and>
   prompt (ImageStudio_handleImageUpload img s) = prompt s"
  by (simp add: ImageStudio_handleClearImage_def ImageStudio_handleImageUpload_def)

text \<open>
  After clearing the input image, an output that was shown is still there, and so is an
  error that was shown. Both states are reached by an upload, a typed prompt and one
  generation.
\<close>

theorem C9_clear_resets_counterexample:
  "ex_studio
     = fst (ImageStudio_handleGenerate ex_env_ok
         ((ImageStudio_handleImageUpload ex_upload ImageStudio_initial)
            \<lparr>prompt := lit ''a red fox''\<rparr>)) \<and>
   outputImage (ImageStudio_handleClearImage ex_studio)
     = Some (lit ''data:image/png;base64,QUJD'') \<and>
   outputImage (ImageStudio_handleClearImage ex_studio) \<noteq> None \<and>
   ex_studio_failed
     = fst (ImageStudio_handleGenerate (ex_env_noimage_at 0)
         ((ImageStudio_handleImageUpload ex_upload ImageStudio_initial)
            \<lparr>prompt := lit ''a red fox''\<rparr>)) \<and>
   studio_error (ImageStudio_handleClearImage ex_studio_failed)
     = Some (lit ''Image generation failed. The model did not return an image.'') \<and>
   studio_error (ImageStudio_handleClearImage ex_studio_failed) \<noteq> None"
proof -
  have p: "trim (lit ''a red fox'') \<noteq> []"
    by (simp add: trim_Nil_iff lit_def is_ws_def)
  have u: "dataUrl ex_blob = lit ''data:image/png;base64,QUJD''"
    by (simp add: dataUrl_def ex_blob_def lit_def)
  have a: "ex_studio
     = fst (ImageStudio_handleGenerate ex_env_ok
         ((ImageStudio_handleImageUpload ex_upload ImageStudio_initial)
            \<lparr>prompt := lit ''a red fox''\<rparr>))"
    by (simp add: ImageStudio_handleGenerate_def ImageStudio_tryBody_def
        ImageStudio_handleImageUpload_def ImageStudio_initial_def p u ex_studio_def
        ex_env_ok_def ex_env_def ex_image_response_image)
  have b: "ex_studio_failed
     = fst (ImageStudio_handleGenerate (ex_env_noimage_at 0)
         ((ImageStudio_handleImageUpload ex_upload ImageStudio_initial)
            \<lparr>prompt := lit ''a red fox''\<rparr>))"
    by (simp add: ImageStudio_handleGenerate_def ImageStudio_tryBody_def
        ImageStudio_handleImageUpload_def ImageStudio_initial_def p ex_studio_failed_def
        ex_env_noimage_at_def ex_env_def ex_text_response_no_image errorMessage_def)
  have c: "outputImage (ImageStudio_handleClearImage ex_studio)
     = Some (lit ''data:image/png;base64,QUJD'')"
    by (simp add: ImageStudio_handleClearImage_def ex_studio_def)
  have d: "studio_error (ImageStudio_handleClearImage ex_studio_failed)
     = Some (lit ''Image generation failed. The model did not return an image.'')"
    by (simp add: ImageStudio_handleClearImage_def ex_studio_failed_def)
  show ?thesis using a b c d by simp
qed


section \<open>Switching workflows\<close>

text \<open>
  Claim C4, as amended. Switching to the other workflow unmounts the one that was shown,
  so switching there and back shows the workflow in its initial state, whatever its state
  was before: the text, the images, the character, the panels and the error are gone.
\<close>

theorem C4_switching_remounts:
  "tool \<noteq> other \<Longrightarrow>
   setActiveTool tool (setActiveTool other app) =
     \<lparr>activeTool = tool,
      imageStudioInstance = (if tool = Tool_imageStudio then Some ImageStudio_initial else None),
      storyboardInstance = (if tool = Tool_storyboard then Some Storyboard_initial else None)\<rparr>"
  by (cases tool; cases other) (simp_all add: setActiveTool_def render_def reconcile_def)

theorem C4_switching_remounts_witness:
  "Tool_imageStudio \<noteq> Tool_storyboard \<and>
   setActiveTool Tool_imageStudio (setActiveTool Tool_storyboard ex_app) = App_initial"
  using C4_switching_remounts [of Tool_imageStudio Tool_storyboard ex_app]
  by (simp add: App_initial_def render_def reconcile_def)

text \<open>
  The prompt, the input image and the output of the single-image workflow do not survive
  the round trip.
\<close>

theorem C4_switching_preserves_counterexample:
  "imageStudioInstance ex_app = Some ex_studio \<and>
   imageStudioInstance (setActiveTool Tool_imageStudio (setActiveTool Tool_storyboard ex_app))
     = Some ImageStudio_initial \<and>
   prompt ex_studio = lit ''a red fox'' \<and> prompt ImageStudio_initial = [] \<and>
   imageStudioInstance (setActiveTool Tool_imageStudio (setActiveTool Tool_storyboard ex_app))
     \<noteq> imageStudioInstance ex_app"
  by (simp add: setActiveTool_def render_def reconcile_def ex_app_def ex_studio_def
      ImageStudio_initial_def lit_def)


section \<open>The character reference\<close>

text \<open>
  Claim C6. Uploading a character image, clearing the character, and generating a
  character from a description when the service returns an image, each leave the panel
  list empty; clearing also empties the description text.
\<close>

theorem C6_character_change_clears_panels:
  "storyboard (Storyboard_handleImageUpload img s) = [] \<and>
   storyboard (handleClearCharacter s) = [] \<and>
   characterDescription (handleClearCharacter s) = [] \<and>
   (trim (characterDescription s) \<noteq> [] \<and>
    generateContent env 0 (imageRequest [textPart (characterPrompt (characterDescription s))])
      = Resolves response \<and>
    imagePartInlineData response = Some blob \<longrightarrow>
      character (fst (handleCreateCharacter env s))
        = Some \<lparr>char_base64 = data blob, char_mimeType = mimeType blob, char_file = None\<rparr> \<and>
      storyboard (fst (handleCreateCharacter env s)) = [])"
  by (simp add: Storyboard_handleImageUpload_def handleClearCharacter_def
      handleCreateCharacter_def handleCreateCharacter_tryBody_def)

theorem C6_character_change_clears_panels_witness:
  "trim (characterDescription ex_describing) \<noteq> [] \<and>
   generateContent ex_env_ok 0
     (imageRequest [textPart (characterPrompt (characterDescription ex_describing))])
     = Resolves ex_image_response \<and>
   imagePartInlineData ex_image_response = Some ex_blob \<and>
   storyboard ex_describing = [ex_panel] \<and>
   character (fst (handleCreateCharacter ex_env_ok ex_describing))
     = Some \<lparr>char_base64 = lit ''QUJD'', char_mimeType = lit ''image/png'', char_file = None\<rparr> \<and>
   storyboard (fst (handleCreateCharacter ex_env_ok ex_describing)) = []"
proof -
  have d: "trim (characterDescription ex_describing) \<noteq> []"
    by (simp add: ex_describing_def Storyboard_initial_def trim_Nil_iff lit_def is_ws_def)
  have g: "generateContent ex_env_ok 0
     (imageRequest [textPart (characterPrompt (characterDescription ex_describing))])
     = Resolves ex_image_response"
    by (simp add: ex_env_ok_def ex_env_def)
  have i: "imagePartInlineData ex_image_response = Some ex_blob"
    by (simp add: imagePartInlineData_def imagePart_def ex_image_response_def at_def
        textPart_def inlinePart_def ex_blob_def)
  have p: "storyboard ex_describing = [ex_panel]"
    by (simp add: ex_describing_def Storyboard_initial_def)
  show ?thesis
    using d g i p
      C6_character_change_clears_panels [of _ ex_describing ex_env_ok ex_image_response ex_blob]
    by (simp add: ex_blob_def)
qed


section \<open>Validation\<close>

text \<open>
  Claim C7. A submission whose required text is empty or white space only (the prompt of
  the single-image workflow, the character description, the script), and a storyboard
  submission without a character reference, sends no request, sets the validation
  message, and changes nothing else.
\<close>

theorem C7_blank_submission_rejected:
  "((\<forall>c\<in>set (prompt i). is_ws c) \<longrightarrow>
      ImageStudio_handleGenerate env i
        = (i\<lparr>studio_error := Some (lit ''Please enter a prompt.'')\<rparr>, [])) \<and>
   ((\<forall>c\<in>set (characterDescription s). is_ws c) \<longrightarrow>
      handleCreateCharacter env s
        = (s\<lparr>error := Some (lit ''Please describe the character you want to create.'')\<rparr>, [])) \<and>
   (character s = None \<longrightarrow>
      Storyboard_handleGenerate env s
        = (s\<lparr>error := Some (lit ''Please upload or create a character reference image.'')\<rparr>, [])) \<and>
   (character s \<noteq> None \<and> (\<forall>c\<in>set (script s). is_ws c) \<longrightarrow>
      Storyboard_handleGenerate env s
        = (s\<lparr>error := Some (lit ''Please enter a script for the storyboard.'')\<rparr>, []))"
  by (auto simp: ImageStudio_handleGenerate_def handleCreateCharacter_def
      Storyboard_handleGenerate_def trim_Nil_iff)

theorem C7_blank_submission_rejected_witness:
  "list_all is_ws (prompt ex_blank_studio) \<and>
   ImageStudio_handleGenerate ex_env_ok ex_blank_studio
     = (ex_blank_studio\<lparr>studio_error := Some (lit ''Please enter a prompt.'')\<rparr>, []) \<and>
   list_all is_ws (characterDescription ex_blank_storyboard) \<and>
   handleCreateCharacter ex_env_ok ex_blank_storyboard
     = (ex_blank_storyboard
          \<lparr>error := Some (lit ''Please describe the character you want to create.'')\<rparr>, []) \<and>
   character Storyboard_initial = None \<and>
   Storyboard_handleGenerate ex_env_ok Storyboard_initial
     = (Storyboard_initial
          \<lparr>error := Some (lit ''Please upload or create a character reference image.'')\<rparr>, []) \<and>
   character ex_blank_storyboard \<noteq> None \<and>
   list_all is_ws (script ex_blank_storyboard) \<and>
   Storyboard_handleGenerate ex_env_ok ex_blank_storyboard
     = (ex_blank_storyboard
          \<lparr>error := Some (lit ''Please enter a script for the storyboard.'')\<rparr>, [])"
proof -
  have a: "\<forall>c\<in>set (prompt ex_blank_studio). is_ws c"
    by (simp add: ex_blank_studio_def is_ws_def)
  have b: "\<forall>c\<in>set (characterDescription ex_blank_storyboard). is_ws c"
    by (simp add: ex_blank_storyboard_def is_ws_def)
  have c: "character Storyboard_initial = None"
    by (simp add: Storyboard_initial_def)
  have d: "character ex_blank_storyboard \<noteq> None"
    by (simp add: ex_blank_storyboard_def ex_storyboard_def)
  have e: "\<forall>c\<in>set (script ex_blank_storyboard). is_ws c"
    by (simp add: ex_blank_storyboard_def ex_storyboard_def is_ws_def)
  show ?thesis
    using a b c d e
      C7_blank_submission_rejected [of ex_blank_studio ex_env_ok ex_blank_storyboard]
      C7_blank_submission_rejected [of ex_blank_studio ex_env_ok Storyboard_initial]
    by (simp add: list_all_iff)
qed

text \<open>
  Claim C8, as amended. A script whose lines are all blank after trimming is white space
  as a whole, so with a character reference set the run is refused with the validation
  message for the script: no request is sent, and the panel list stays as it was.
\<close>

theorem C8_blank_script_is_rejected:
  "character s = Some ch \<Longrightarrow> \<forall>line\<in>set (split 0xA (script s)). trim line = [] \<Longrightarrow>
   Storyboard_handleGenerate env s
     = (s\<lparr>error := Some (lit ''Please enter a script for the storyboard.'')\<rparr>, [])"
  by (simp add: Storyboard_handleGenerate_def all_lines_blank_iff)

theorem C8_blank_script_is_rejected_witness:
  "character ex_blank_storyboard = Some ex_character \<and>
   map trim (split 0xA (script ex_blank_storyboard)) = [[], []] \<and>
   Storyboard_handleGenerate ex_env_ok ex_blank_storyboard
     = (ex_blank_storyboard
          \<lparr>error := Some (lit ''Please enter a script for the storyboard.'')\<rparr>, []) \<and>
   storyboard (fst (Storyboard_handleGenerate ex_env_ok ex_blank_storyboard)) = [ex_panel]"
proof -
  have a: "character ex_blank_storyboard = Some ex_character"
    by (simp add: ex_blank_storyboard_def ex_storyboard_def)
  have b: "\<forall>line\<in>set (split 0xA (script ex_blank_storyboard)). trim line = []"
    by (simp add: ex_blank_storyboard_def ex_storyboard_def trim_def is_ws_def)
  have c: "storyboard ex_blank_storyboard = [ex_panel]"
    by (simp add: ex_blank_storyboard_def)
  have d: "map trim (split 0xA (script ex_blank_storyboard)) = [[], []]"
    by (simp add: ex_blank_storyboard_def ex_storyboard_def trim_def is_ws_def)
  show ?thesis
    using a c d C8_blank_script_is_rejected [OF a b, of ex_env_ok] by simp
qed

text \<open>For a script of two blank lines an error is set, and the panels of an earlier run remain.\<close>

theorem C8_blank_script_succeeds_counterexample:
  "map trim (split 0xA (script ex_blank_storyboard)) = [[], []] \<and>
   error ex_blank_storyboard = None \<and>
   error (fst (Storyboard_handleGenerate ex_env_ok ex_blank_storyboard))
     = Some (lit ''Please enter a script for the storyboard.'') \<and>
   storyboard (fst (Storyboard_handleGenerate ex_env_ok ex_blank_storyboard)) \<noteq> []"
  by (simp add: Storyboard_handleGenerate_def ex_blank_storyboard_def ex_storyboard_def
      Storyboard_initial_def trim_def is_ws_def)

section \<open>A storyboard run\<close>

text \<open>
  Claim C1. A run started with a character reference, on a script with \<open>N \<ge> 1\<close>
  non-blank lines, in which no call to the service throws: the code works on \<open>N\<close>
  lines; what it does is, after publishing the empty list, one pass per line
  in script order, each pass publishing the placeholder, sending the request of its line
  and publishing the finished panels, so a request is sent only after the result of the
  line before is published; there are \<open>N\<close> requests, those of the lines in order; the
  published lists have the lengths \<open>0, 1, 1, 2, 2, ..., N, N\<close>; and the run ends with
  \<open>N\<close> panels that carry the lines as labels, the busy flag cleared and no error.
\<close>

theorem C1_run_is_sequential:
  assumes ch: "character s = Some ch"
      and N: "length (nonBlankLines (script s)) = N"
      and pos: "1 \<le> N"
      and ok: "\<forall>k<N. \<exists>response.
                 generateContent env k (panelRequest ch (scriptLines (script s) ! k)) = Resolves response"
  shows "length (scriptLines (script s)) = N \<and>
         snd (Storyboard_handleGenerate env s)
           = Published [] #
             concat (map (pass ch (scriptLines (script s))
                            (storyboard (fst (Storyboard_handleGenerate env s)))) [0..<N]) \<and>
         calls (snd (Storyboard_handleGenerate env s))
           = map (panelRequest ch) (scriptLines (script s)) \<and>
         map length (published (snd (Storyboard_handleGenerate env s)))
           = 0 # concat (map (\<lambda>k. [Suc k, Suc k]) [0..<N]) \<and>
         length (storyboard (fst (Storyboard_handleGenerate env s))) = N \<and>
         map panel_prompt (storyboard (fst (Storyboard_handleGenerate env s)))
           = scriptLines (script s) \<and>
         isLoading (fst (Storyboard_handleGenerate env s)) = False \<and>
         error (fst (Storyboard_handleGenerate env s)) = None"
proof -
  let ?lines = "scriptLines (script s)"
  have len: "length ?lines = N" using N by (simp add: scriptLines_count)
  then have "?lines \<noteq> []" using pos by auto
  then have nb: "trim (script s) \<noteq> []" by (rule scriptLines_nonblank)
  have j: "N \<le> length ?lines" using len by simp
  have bad: "N < length ?lines \<Longrightarrow>
      generateContent env N (panelRequest ch (?lines ! N)) = Rejects NonError"
    using len by simp
  from handleGenerate_run [OF ch nb j ok bad] obtain ps where
    lps: "length ps = N" and
    cont: "\<forall>i<N. \<forall>r. generateContent env i (panelRequest ch (?lines ! i)) = Resolves r \<longrightarrow>
                     ps ! i = finishedPanel env i (?lines ! i) r" and
    run: "Storyboard_handleGenerate env s =
            (s\<lparr>isLoading := False, error := None, storyboard := ps\<rparr>,
             Published [] # concat (map (pass ch ?lines ps) [0..<N]))"
    using len by auto
  have c: "calls (snd (Storyboard_handleGenerate env s)) = map (panelRequest ch) ?lines"
    using len by (simp add: run calls_passes map_nth_take)
  have "map length (concat (map (\<lambda>k. [take k ps @ [pendingPanel k], take (Suc k) ps]) [0..<N]))
      = concat (map (\<lambda>k. [Suc k, Suc k]) [0..<N])"
    unfolding map_concat map_map
    by (rule arg_cong [where f = concat], rule map_cong) (simp_all add: lps)
  then have p: "map length (published (snd (Storyboard_handleGenerate env s)))
      = 0 # concat (map (\<lambda>k. [Suc k, Suc k]) [0..<N])"
    by (simp add: run published_passes)
  have l: "map panel_prompt ps = ?lines"
  proof (rule nth_equalityI)
    show "length (map panel_prompt ps) = length ?lines" using lps len by simp
  next
    fix i assume "i < length (map panel_prompt ps)"
    then have i: "i < N" using lps by simp
    with ok obtain r where "generateContent env i (panelRequest ch (?lines ! i)) = Resolves r"
      by blast
    with cont i have "ps ! i = finishedPanel env i (?lines ! i) r" by blast
    then show "map panel_prompt ps ! i = ?lines ! i"
      using i lps by (simp add: panel_prompt_finished)
  qed
  show ?thesis using len c p l lps by (simp add: run)
qed

theorem C1_run_is_sequential_witness:
  "character ex_two_lines = Some ex_character \<and>
   length (nonBlankLines (script ex_two_lines)) = 2 \<and>
   generateContent ex_env_ok 0 (panelRequest ex_character (lit ''A | hi'')) = Resolves ex_image_response \<and>
   generateContent ex_env_ok 1 (panelRequest ex_character (lit '' B'')) = Resolves ex_image_response \<and>
   calls (snd (Storyboard_handleGenerate ex_env_ok ex_two_lines))
     = [panelRequest ex_character (lit ''A | hi''), panelRequest ex_character (lit '' B'')] \<and>
   map length (published (snd (Storyboard_handleGenerate ex_env_ok ex_two_lines))) = [0, 1, 1, 2, 2] \<and>
   length (storyboard (fst (Storyboard_handleGenerate ex_env_ok ex_two_lines))) = 2 \<and>
   map panel_prompt (storyboard (fst (Storyboard_handleGenerate ex_env_ok ex_two_lines)))
     = [lit ''A | hi'', lit '' B''] \<and>
   isLoading (fst (Storyboard_handleGenerate ex_env_ok ex_two_lines)) = False \<and>
   error (fst (Storyboard_handleGenerate ex_env_ok ex_two_lines)) = None"
proof -
  have a: "character ex_two_lines = Some ex_character"
    by (simp add: ex_two_lines_def ex_storyboard_def)
  have b: "length (nonBlankLines (script ex_two_lines)) = 2"
    by (simp add: ex_two_lines_def ex_storyboard_def nonBlankLines_def lit_def trim_def is_ws_def)
  have c: "(1::nat) \<le> 2" by simp
  have d: "\<forall>k<2. \<exists>response.
       generateContent ex_env_ok k (panelRequest ex_character (scriptLines (script ex_two_lines) ! k))
         = Resolves response"
    by (simp add: ex_env_ok_def ex_env_def)
  have e: "generateContent ex_env_ok 0 (panelRequest ex_character (lit ''A | hi'')) = Resolves ex_image_response"
          "generateContent ex_env_ok 1 (panelRequest ex_character (lit '' B'')) = Resolves ex_image_response"
    by (simp_all add: ex_env_ok_def ex_env_def)
  have u: "[0..<2] = [0, Suc 0]" by (simp add: numeral_2_eq_2)
  show ?thesis
    using a b e C1_run_is_sequential [OF a b c d, THEN conjunct2, THEN conjunct2]
    by (simp add: ex_two_lines_scriptLines u)
qed




text \<open>
  Claim C3. When the call for a line throws, the run stops, the message is shown and the
  busy flag is cleared; but the published list is not the finished panels alone: the
  placeholder of the line whose call threw stays in it as its last entry, shown as
  pending. Here the second of two lines throws.
\<close>

theorem C3_placeholder_left_behind:
  "generateContent (ex_env_throw_at 1) 1 (panelRequest ex_character (lit '' B''))
     = Rejects (Error (lit ''Failed to fetch'')) \<and>
   storyboard (fst (Storyboard_handleGenerate (ex_env_throw_at 1) ex_two_lines))
     = [\<lparr>panel_id = lit ''panel-0'', panel_src = lit ''data:image/png;base64,QUJD'',
         panel_prompt = lit ''A | hi''\<rparr>,
        \<lparr>panel_id = lit ''loading-1'', panel_src = [], panel_prompt = lit ''loading''\<rparr>] \<and>
   panelDisplay (last (storyboard (fst (Storyboard_handleGenerate (ex_env_throw_at 1) ex_two_lines))))
     = Pending \<and>
   error (fst (Storyboard_handleGenerate (ex_env_throw_at 1) ex_two_lines))
     = Some (lit ''Failed to fetch'') \<and>
   isLoading (fst (Storyboard_handleGenerate (ex_env_throw_at 1) ex_two_lines)) = False"
proof -
  have c: "character ex_two_lines = Some ex_character"
    by (simp add: ex_two_lines_def ex_storyboard_def)
  have t: "trim (script ex_two_lines) \<noteq> []"
    by (simp add: ex_two_lines_def ex_storyboard_def lit_def trim_def is_ws_def)
  have f: "finishedPanel (ex_env_throw_at (Suc 0)) 0 (lit ''A | hi'') ex_image_response
      = \<lparr>panel_id = lit ''panel-0'', panel_src = lit ''data:image/png;base64,QUJD'',
         panel_prompt = lit ''A | hi''\<rparr>"
    by (simp add: finishedPanel_def ex_image_response_image ex_env_throw_at_id dataUrl_def
        ex_blob_def lit_def)
  have p: "pendingPanel (Suc 0)
      = \<lparr>panel_id = lit ''loading-1'', panel_src = [], panel_prompt = lit ''loading''\<rparr>"
    by (simp add: pendingPanel_def lit_def)
  have d: "panelDisplay \<lparr>panel_id = lit ''loading-1'', panel_src = [], panel_prompt = lit ''loading''\<rparr>
      = Pending"
    by (simp add: panelDisplay_def)
  show ?thesis
    by (simp add: Storyboard_handleGenerate_def c t ex_env_throw_at_answer
        ex_two_lines_scriptLines Let_def f p d errorMessage_def)
qed

text \<open>
  Claim C10. How a panel is shown is read off its own fields: it is pending exactly when
  its label is \<open>loading\<close>, and failed exactly when it is not pending and its image value
  is \<open>error\<close>. So when the line \<open>k\<close> of a script is the text \<open>loading\<close> and its call
  returns an image, the finished panel at position \<open>k\<close> holds the image, has the label
  \<open>loading\<close>, and is shown as pending, like the placeholder it replaced.
\<close>

theorem C10_loading_line_shown_pending:
  assumes "character s = Some ch"
      and "k < length (scriptLines (script s))"
      and "scriptLines (script s) ! k = lit ''loading''"
      and "\<forall>i<k. \<exists>r. generateContent env i (panelRequest ch (scriptLines (script s) ! i)) = Resolves r"
      and "generateContent env k (panelRequest ch (scriptLines (script s) ! k)) = Resolves response"
      and "imagePartInlineData response = Some blob"
  shows "(panelDisplay panel = Pending \<longleftrightarrow> panel_prompt panel = lit ''loading'') \<and>
         (panelDisplay panel = Failed \<longleftrightarrow>
            panel_prompt panel \<noteq> lit ''loading'' \<and> panel_src panel = lit ''error'') \<and>
         k < length (storyboard (fst (Storyboard_handleGenerate env s))) \<and>
         storyboard (fst (Storyboard_handleGenerate env s)) ! k
           = \<lparr>panel_id = freshId env k, panel_src = dataUrl blob, panel_prompt = lit ''loading''\<rparr> \<and>
         panelDisplay (storyboard (fst (Storyboard_handleGenerate env s)) ! k) = Pending \<and>
         panelDisplay (storyboard (fst (Storyboard_handleGenerate env s)) ! k)
           = panelDisplay (pendingPanel k)"
proof -
  have a: "panelDisplay panel = Pending \<longleftrightarrow> panel_prompt panel = lit ''loading''"
    by (simp add: panelDisplay_def)
  have b: "panelDisplay panel = Failed \<longleftrightarrow>
            panel_prompt panel \<noteq> lit ''loading'' \<and> panel_src panel = lit ''error''"
    by (simp add: panelDisplay_def)
  have c: "panelDisplay (pendingPanel k) = Pending"
    by (simp add: panelDisplay_def pendingPanel_def)
  have d: "finishedPanel env k (lit ''loading'') response
      = \<lparr>panel_id = freshId env k, panel_src = dataUrl blob, panel_prompt = lit ''loading''\<rparr>"
    using assms(6) by (simp add: finishedPanel_def)
  have e: "panelDisplay
      \<lparr>panel_id = freshId env k, panel_src = dataUrl blob, panel_prompt = lit ''loading''\<rparr> = Pending"
    by (simp add: panelDisplay_def)
  from panel_after_run [OF assms(1,2,4,5)]
  have f: "k < length (storyboard (fst (Storyboard_handleGenerate env s)))"
    and g: "storyboard (fst (Storyboard_handleGenerate env s)) ! k
           = finishedPanel env k (scriptLines (script s) ! k) response"
    by simp_all
  show ?thesis
    using a b c f g by (simp add: assms(3) d e)
qed

theorem C10_loading_line_shown_pending_witness:
  "character ex_loading_line = Some ex_character \<and>
   scriptLines (script ex_loading_line) = [lit ''intro'', lit ''loading''] \<and>
   generateContent ex_env_ok 0 (panelRequest ex_character (lit ''intro'')) = Resolves ex_image_response \<and>
   generateContent ex_env_ok 1 (panelRequest ex_character (lit ''loading'')) = Resolves ex_image_response \<and>
   imagePartInlineData ex_image_response = Some ex_blob \<and>
   storyboard (fst (Storyboard_handleGenerate ex_env_ok ex_loading_line)) ! 1
     = \<lparr>panel_id = lit ''panel-1'', panel_src = lit ''data:image/png;base64,QUJD'',
        panel_prompt = lit ''loading''\<rparr> \<and>
   panelDisplay (storyboard (fst (Storyboard_handleGenerate ex_env_ok ex_loading_line)) ! 1) = Pending \<and>
   panelDisplay (pendingPanel 1) = Pending"
proof -
  have a: "character ex_loading_line = Some ex_character"
    by (simp add: ex_loading_line_def ex_storyboard_def)
  have b: "1 < length (scriptLines (script ex_loading_line))"
    by (simp add: ex_loading_line_scriptLines)
  have c: "scriptLines (script ex_loading_line) ! 1 = lit ''loading''"
    by (simp add: ex_loading_line_scriptLines)
  have d: "\<forall>i<1. \<exists>r. generateContent ex_env_ok i
              (panelRequest ex_character (scriptLines (script ex_loading_line) ! i)) = Resolves r"
    by (simp add: ex_env_ok_def ex_env_def)
  have e: "generateContent ex_env_ok 1
              (panelRequest ex_character (scriptLines (script ex_loading_line) ! 1))
             = Resolves ex_image_response"
    by (simp add: ex_env_ok_def ex_env_def)
  have g: "generateContent ex_env_ok 0 (panelRequest ex_character (lit ''intro'')) = Resolves ex_image_response"
          "generateContent ex_env_ok 1 (panelRequest ex_character (lit ''loading'')) = Resolves ex_image_response"
    by (simp_all add: ex_env_ok_def ex_env_def)
  have h: "freshId ex_env_ok 1 = lit ''panel-1''"
    by (simp add: ex_env_ok_def ex_env_def lit_def)
  have u: "dataUrl ex_blob = lit ''data:image/png;base64,QUJD''"
    by (simp add: dataUrl_def ex_blob_def lit_def)
  show ?thesis
    using a g h u
      C10_loading_line_shown_pending [OF a b c d e ex_image_response_image, of "pendingPanel 1"]
    by (simp add: ex_loading_line_scriptLines ex_image_response_image panelDisplay_def
        pendingPanel_def)
qed


end
